theory Spec2Isabelle
  imports Complex_Main
begin

section \<open>Area-averaged diurnal cycles (hfutils/diurnal_cycle.py)\<close>

text \<open>
  The module works on xarray arrays whose elements are numpy values. The embedding
  keeps the three value kinds the code uses:
  \<^item> a \<^verbatim>\<open>datetime64[ns]\<close> time stamp is an \<open>int\<close>, the nanoseconds since the epoch;
  \<^item> a \<^verbatim>\<open>timedelta64\<close> is a tick count together with the length of one tick, since
    numpy keeps the unit of a duration through arithmetic and the code casts between
    units (\<^verbatim>\<open>timedelta64[s]\<close>, \<^verbatim>\<open>timedelta64[21600s]\<close>);
  \<^item> a floating-point number is a \<open>real\<close>: rounding of IEEE doubles is not modelled,
    arithmetic on longitudes and on data values is exact. A missing value (NaN) of a
    data variable is \<open>None\<close>.
  Tick counts are unbounded integers; the 64-bit range of numpy's counts is not modelled.
\<close>

datatype error = ValueError | IndexError | TypeError

type_synonym datetime64 = int

definition ns_per_second :: int where
  "ns_per_second = 1000000000"

datatype timedelta64 = Timedelta64 (ticks: int) (unit_ns: int)

text \<open>The length of a duration in nanoseconds, whatever its unit.\<close>

definition nanoseconds :: "timedelta64 \<Rightarrow> int" where
  "nanoseconds d = ticks d * unit_ns d"

subsection \<open>The numpy operations on durations that the code uses\<close>

text \<open>
  \<^verbatim>\<open>x.astype('timedelta64[s]')\<close> on a float: the C conversion of a double to a 64-bit
  integer, which drops the fractional part (rounds toward zero).
\<close>

definition float_to_ticks :: "real \<Rightarrow> int" where
  "float_to_ticks x = (if 0 \<le> x then \<lfloor>x\<rfloor> else \<lceil>x\<rceil>)"

definition float_astype_seconds :: "real \<Rightarrow> timedelta64" where
  "float_astype_seconds x = Timedelta64 (float_to_ticks x) ns_per_second"

text \<open>
  \<^verbatim>\<open>d.astype('timedelta64[<u>]')\<close> on a duration: numpy rescales the tick count to the
  new unit and rounds toward negative infinity.
\<close>

definition timedelta_astype :: "timedelta64 \<Rightarrow> int \<Rightarrow> timedelta64" where
  "timedelta_astype d u = Timedelta64 ((ticks d * unit_ns d) div u) u"

text \<open>
  \<^verbatim>\<open>d * k\<close> for an integer \<open>k\<close>: numpy multiplies the tick count and keeps the unit
  of \<open>d\<close>.
\<close>

definition timedelta_times :: "timedelta64 \<Rightarrow> int \<Rightarrow> timedelta64" where
  "timedelta_times d k = Timedelta64 (ticks d * k) (unit_ns d)"

text \<open>
  \<^verbatim>\<open>d + e\<close>: both durations are brought to the greatest common divisor of their units.
\<close>

definition timedelta_plus :: "timedelta64 \<Rightarrow> timedelta64 \<Rightarrow> timedelta64" where
  "timedelta_plus d e =
     (let g = gcd (unit_ns d) (unit_ns e)
      in Timedelta64 (ticks d * (unit_ns d div g) + ticks e * (unit_ns e div g)) g)"

text \<open>\<^verbatim>\<open>t + d\<close> for a \<^verbatim>\<open>datetime64[ns]\<close> \<open>t\<close>: the result is in nanoseconds.\<close>

definition datetime_plus :: "datetime64 \<Rightarrow> timedelta64 \<Rightarrow> datetime64" where
  "datetime_plus t d = t + ticks d * unit_ns d"

subsection \<open>get_approx_localtime\<close>

text \<open>
  Line 39: \<^verbatim>\<open>((longitude * 12/180) * 60**2).astype('timedelta64[s]')\<close>, for one
  longitude.
\<close>

definition raw_offset :: "real \<Rightarrow> timedelta64" where
  "raw_offset longitude = float_astype_seconds ((longitude * 12 / 180) * 60 ^ 2)"

text \<open>
  Lines 39 to 48 for one longitude. With \<open>keep_time_resolution\<close> the offset is cast
  to the unit of \<open>time_resolution_seconds\<close> seconds and the result, still in that unit,
  is multiplied by \<open>time_resolution_seconds\<close>; \<open>center\<close> is looked at only inside
  that branch, and adds \<^verbatim>\<open>np.array(time_resolution_seconds/2).astype('timedelta64[s]')\<close>.
\<close>

definition local_time_offset :: "real \<Rightarrow> int \<Rightarrow> bool \<Rightarrow> bool \<Rightarrow> timedelta64" where
  "local_time_offset longitude time_resolution_seconds keep_time_resolution center =
     (let off = raw_offset longitude
      in if keep_time_resolution then
           (let snapped = timedelta_times
                  (timedelta_astype off (time_resolution_seconds * ns_per_second))
                  time_resolution_seconds
            in if center
               then timedelta_plus snapped
                      (float_astype_seconds (real_of_int time_resolution_seconds / 2))
               else snapped)
         else off)"

text \<open>
  The function on arrays. The two arrays lie over one common dimension, as
  \<open>avg_diurnal_cycle\<close> passes them (the stacked \<^verbatim>\<open>time\<close> and \<^verbatim>\<open>lon\<close> coordinates), so
  the sum of line 50 is taken element by element; for arrays over different dimensions
  xarray forms every (time, longitude) pair and the value of each pair is the same.
  numpy has no unit \<^verbatim>\<open>timedelta64[<n>s]\<close> with a multiplier \<open>n\<close> that is not positive:
  for such a resolution the cast of line 42 yields no array but an exception, which the
  model gives as \<open>TypeError\<close>.
\<close>

definition get_approx_localtime ::
  "datetime64 list \<Rightarrow> real list \<Rightarrow> int \<Rightarrow> bool \<Rightarrow> bool \<Rightarrow> error + datetime64 list" where
  "get_approx_localtime reference_datetime longitude time_resolution_seconds
       keep_time_resolution center =
     (if keep_time_resolution \<and> time_resolution_seconds \<le> 0 then Inl TypeError
      else Inr (map2
        (\<lambda>t l. datetime_plus t
           (local_time_offset l time_resolution_seconds keep_time_resolution center))
        reference_datetime longitude))"

subsection \<open>_get_time_resolution\<close>

text \<open>\<^verbatim>\<open>time.diff(dim='time')\<close>: the gaps between neighbours, in the order given.\<close>

fun diff :: "int list \<Rightarrow> int list" where
  "diff (x # y # zs) = (y - x) # diff (y # zs)"
| "diff zs = []"

text \<open>\<^verbatim>\<open>np.unique\<close>: the distinct elements in ascending order.\<close>

definition np_unique :: "int list \<Rightarrow> int list" where
  "np_unique xs = sort (remdups xs)"

text \<open>
  Lines 76 to 83. The gaps are nanosecond durations; they are made distinct first
  and cast to whole seconds afterwards. An empty array of gaps passes the length test
  and the index \<^verbatim>\<open>[0]\<close> of line 83 is then out of range.
\<close>

definition get_time_resolution :: "datetime64 list \<Rightarrow> error + int" where
  "get_time_resolution time =
     (let unique_time_dels = map (\<lambda>d. d div ns_per_second) (np_unique (diff time))
      in if length unique_time_dels > 1 then Inl ValueError
         else (case unique_time_dels of
                 [] \<Rightarrow> Inl IndexError
               | d # rest \<Rightarrow> Inr d))"

subsection \<open>avg_diurnal_cycle\<close>

text \<open>
  A dataset: the \<^verbatim>\<open>time\<close> and \<^verbatim>\<open>lon\<close> coordinates and its data variables, each one a
  table with one row per longitude and one entry per time stamp in every row. A variable
  with further dimensions is one such table per slice of those dimensions.
\<close>

record dataset =
  ds_time :: "datetime64 list"
  ds_lon :: "real list"
  ds_vars :: "real option list list list"

definition well_formed :: "dataset \<Rightarrow> bool" where
  "well_formed dset \<longleftrightarrow>
     (\<forall>field \<in> set (ds_vars dset).
        length field = length (ds_lon dset) \<and>
        (\<forall>row \<in> set field. length row = length (ds_time dset)))"

text \<open>
  \<^verbatim>\<open>dset.stack(local_time=('lon', 'time'))\<close>: the new dimension runs through the
  longitudes and, for each longitude, through the time stamps.
\<close>

definition stacked_lon :: "dataset \<Rightarrow> real list" where
  "stacked_lon dset = concat (map (\<lambda>l. replicate (length (ds_time dset)) l) (ds_lon dset))"

definition stacked_time :: "dataset \<Rightarrow> datetime64 list" where
  "stacked_time dset = concat (map (\<lambda>l. ds_time dset) (ds_lon dset))"

definition stacked_var :: "real option list list \<Rightarrow> real option list" where
  "stacked_var field = concat field"

text \<open>
  \<^verbatim>\<open>local_time.time\<close>: the time of day of a time stamp, a \<^verbatim>\<open>datetime.time\<close> with
  microsecond precision; here the microseconds since midnight.
\<close>

definition time_of_day :: "datetime64 \<Rightarrow> int" where
  "time_of_day t = (t mod (86400 * ns_per_second)) div 1000"

text \<open>
  \<^verbatim>\<open>mean(skipna=True)\<close> over one group, as numpy's \<^verbatim>\<open>nanmean\<close> computes it: missing
  entries are replaced by zero and summed with the rest, the sum is divided by the number
  of entries that are present, and the result is missing when that number is zero.
\<close>

definition nanmean :: "real option list \<Rightarrow> real option" where
  "nanmean xs =
     (let cnt = length (filter (\<lambda>x. x \<noteq> None) xs);
          tot = sum_list (map (\<lambda>x. case x of None \<Rightarrow> 0 | Some v \<Rightarrow> v) xs)
      in if cnt = 0 then None else Some (tot / real cnt))"

text \<open>The samples of a stacked variable whose key is \<open>k\<close>.\<close>

definition group_members :: "int list \<Rightarrow> 'a list \<Rightarrow> int \<Rightarrow> 'a list" where
  "group_members keys vals k = map snd (filter (\<lambda>kv. fst kv = k) (zip keys vals))"

text \<open>
  \<^verbatim>\<open>groupby(...).mean(skipna=True)\<close> for one stacked variable: one mean per distinct
  key, the keys ascending.
\<close>

definition groupby_mean :: "int list \<Rightarrow> real option list \<Rightarrow> real option list" where
  "groupby_mean keys vals = map (\<lambda>k. nanmean (group_members keys vals k)) (np_unique keys)"

text \<open>
  Lines 107 to 117. The keyword arguments are the two options of
  \<open>get_approx_localtime\<close>. The result is the list of times of day and, for every data
  variable, the list of its means, one per time of day.
\<close>

definition avg_diurnal_cycle ::
  "dataset \<Rightarrow> bool \<Rightarrow> bool \<Rightarrow> error + (int list \<times> real option list list)" where
  "avg_diurnal_cycle dset keep_time_resolution center =
     (case get_time_resolution (ds_time dset) of
        Inl e \<Rightarrow> Inl e
      | Inr time_resolution_seconds \<Rightarrow>
          (case get_approx_localtime (stacked_time dset) (stacked_lon dset)
                  time_resolution_seconds keep_time_resolution center of
             Inl e \<Rightarrow> Inl e
           | Inr local_time \<Rightarrow>
               (let keys = map time_of_day local_time
                in Inr (np_unique keys,
                        map (\<lambda>field. groupby_mean keys (stacked_var field)) (ds_vars dset)))))"

subsection \<open>Notions of the specification\<close>

text \<open>
  The specification speaks of the gaps between the sorted, deduplicated time stamps.
\<close>

definition sorted_dedup_gaps :: "datetime64 list \<Rightarrow> int list" where
  "sorted_dedup_gaps time = diff (sort (remdups time))"

text \<open>
  The local time of the sample at longitude index \<open>i\<close> and time index \<open>j\<close>, and the
  samples of a data variable that land in the time-of-day bucket \<open>k\<close>: the entries
  \<open>field ! i ! j\<close> whose local time has the time of day \<open>k\<close>, longitude by longitude.
\<close>

definition local_time_of_sample ::
  "dataset \<Rightarrow> int \<Rightarrow> bool \<Rightarrow> bool \<Rightarrow> nat \<Rightarrow> nat \<Rightarrow> datetime64" where
  "local_time_of_sample dset R keep center i j =
     datetime_plus (ds_time dset ! j) (local_time_offset (ds_lon dset ! i) R keep center)"

definition samples_in_bucket ::
  "dataset \<Rightarrow> int \<Rightarrow> bool \<Rightarrow> bool \<Rightarrow> real option list list \<Rightarrow> int \<Rightarrow> real option list" where
  "samples_in_bucket dset R keep center field k =
     concat (map (\<lambda>i. map (\<lambda>j. field ! i ! j)
                    (filter (\<lambda>j. time_of_day (local_time_of_sample dset R keep center i j) = k)
                       [0..<length (ds_time dset)]))
               [0..<length (ds_lon dset)])"

text \<open>The values of a list of samples that are not missing.\<close>

definition present_values :: "real option list \<Rightarrow> real list" where
  "present_values xs = map the (filter (\<lambda>x. x \<noteq> None) xs)"

text \<open>The grouping keys of the stacked samples, longitude by longitude.\<close>

definition sample_keys :: "dataset \<Rightarrow> int \<Rightarrow> bool \<Rightarrow> bool \<Rightarrow> int list" where
  "sample_keys dset R keep center =
     concat (map (\<lambda>l. map (\<lambda>t. time_of_day
                                  (datetime_plus t (local_time_offset l R keep center)))
                         (ds_time dset)) (ds_lon dset))"

section \<open>Properties\<close>

subsection \<open>Arithmetic of the offset\<close>

lemma ns_per_second_pos: "0 < ns_per_second"
  by (simp add: ns_per_second_def)

lemma float_to_ticks_half: "0 \<le> R \<Longrightarrow> float_to_ticks (real_of_int R / 2) = R div 2"
  using floor_divide_of_int_eq [of R 2, where ?'a = real] by (simp add: float_to_ticks_def)




lemma local_time_offset_raw:
  "local_time_offset l R False c
     = Timedelta64 (float_to_ticks ((l * 12 / 180) * 60 ^ 2)) ns_per_second"
  by (simp add: local_time_offset_def raw_offset_def float_astype_seconds_def)

lemma local_time_offset_keep:
  "local_time_offset l R True False =
     Timedelta64 (float_to_ticks ((l * 12 / 180) * 60 ^ 2) div R * R) (R * ns_per_second)"
  using ns_per_second_pos
  by (simp add: local_time_offset_def raw_offset_def float_astype_seconds_def
      timedelta_astype_def timedelta_times_def)

lemma local_time_offset_center:
  assumes "0 < R"
  shows "local_time_offset l R True True =
     Timedelta64 (float_to_ticks ((l * 12 / 180) * 60 ^ 2) div R * R * R + R div 2)
       ns_per_second"
proof -
  have g: "gcd (R * ns_per_second) ns_per_second = ns_per_second"
    using ns_per_second_pos by simp
  show ?thesis
    using ns_per_second_pos assms
    by (simp add: local_time_offset_def raw_offset_def float_astype_seconds_def
      timedelta_astype_def timedelta_times_def timedelta_plus_def g float_to_ticks_half Let_def)
qed

subsection \<open>Keeping the time resolution\<close>

text \<open>
  With \<open>keep_time_resolution\<close> the offset is a whole number of resolution steps, so a
  time stamp on the sampling grid stays on it. Its length, however, is the floored raw
  offset times the resolution once more: the cast of line 42 already yields the floored
  offset as a duration, counted in steps of the resolution, and the product of line 44
  multiplies that count by the resolution without leaving the unit.
\<close>

lemma keep_resolution_offset_on_grid:
  "(R * ns_per_second) dvd nanoseconds (local_time_offset l R True False)"
  by (simp add: local_time_offset_keep nanoseconds_def)

lemma keep_resolution_offset_nanoseconds:
  "0 < R \<Longrightarrow>
   nanoseconds (local_time_offset l R True False) =
     (ticks (raw_offset l) div R * R) * R * ns_per_second"
  by (simp add: local_time_offset_keep nanoseconds_def raw_offset_def float_astype_seconds_def)



text \<open>
  Without \<open>keep_time_resolution\<close> the same longitude is shifted by twelve hours.
\<close>

lemma raw_local_time_at_longitude_180:
  "get_approx_localtime [1577836800 * ns_per_second] [180] 21600 False False
     = Inr [(1577836800 + 12 * 3600) * ns_per_second]"
  by (simp add: get_approx_localtime_def local_time_offset_raw datetime_plus_def
      float_to_ticks_def ns_per_second_def)

subsection \<open>The raw offset\<close>




subsection \<open>Centering\<close>

text \<open>
  C5, as stated: with \<open>center\<close> true the result is exactly \<open>R / 2\<close> seconds later than
  with \<open>center\<close> false, for every positive \<open>R\<close>. For \<open>R = 3\<close> the two results are one
  second apart, not one and a half.
\<close>

theorem center_offset_counterexample:
  "get_approx_localtime [0] [0] 3 True True = Inr [1 * ns_per_second]
   \<and> get_approx_localtime [0] [0] 3 True False = Inr [0]
   \<and> real_of_int (1 * ns_per_second - 0) / real_of_int ns_per_second \<noteq> 3 / 2"
  by (simp add: get_approx_localtime_def local_time_offset_keep local_time_offset_center
      datetime_plus_def float_to_ticks_def ns_per_second_def)

text \<open>
  C5, amended. For every reference time, longitude array and positive resolution \<open>R\<close>,
  both calls return, and the result with \<open>center\<close> true is the result with \<open>center\<close>
  false plus \<open>R div 2\<close> seconds, that is \<open>R / 2\<close> with its fractional part dropped;
  this is \<open>R / 2\<close> when \<open>R\<close> is even.
\<close>

theorem center_adds_half_resolution:
  assumes "0 < R"
  shows "\<exists>local_time.
           get_approx_localtime reference_datetime longitude R True False = Inr local_time
         \<and> get_approx_localtime reference_datetime longitude R True True
             = Inr (map (\<lambda>t. t + (R div 2) * ns_per_second) local_time)
         \<and> (even R \<longrightarrow> real_of_int (R div 2) = real_of_int R / 2)"
  using assms
  by (auto simp add: get_approx_localtime_def local_time_offset_keep local_time_offset_center
      datetime_plus_def algebra_simps real_of_int_div)

theorem center_adds_half_resolution_witness:
  "get_approx_localtime [0, 21600 * ns_per_second] [180, 180] 21600 True False
     = Inr [933120000 * ns_per_second, 933141600 * ns_per_second]
   \<and> get_approx_localtime [0, 21600 * ns_per_second] [180, 180] 21600 True True
     = Inr [933130800 * ns_per_second, 933152400 * ns_per_second]"
  using center_adds_half_resolution [of 21600 "[0, 21600 * ns_per_second]" "[180, 180]"]
  by (simp add: get_approx_localtime_def local_time_offset_keep
      datetime_plus_def float_to_ticks_def ns_per_second_def)

subsection \<open>Centering without keeping the resolution\<close>

text \<open>
  C6. With \<open>keep_time_resolution\<close> false, \<open>center\<close> true gives the same result as
  \<open>center\<close> false, for every input, and the result is a value, not an error.
\<close>

theorem center_skipped_without_keep_resolution:
  "get_approx_localtime reference_datetime longitude time_resolution_seconds False True
     = get_approx_localtime reference_datetime longitude time_resolution_seconds False False
   \<and> (\<exists>local_time.
         get_approx_localtime reference_datetime longitude time_resolution_seconds False True
           = Inr local_time)"
  by (simp add: get_approx_localtime_def local_time_offset_def)

subsection \<open>Longitude zero\<close>

text \<open>
  C7, as stated: at longitude 0 the local time is the reference time for every
  combination of the settings. With \<open>keep_resolution\<close> and \<open>center\<close> both true and a
  resolution of 21600 seconds it is 10800 seconds later.
\<close>

theorem zero_longitude_counterexample:
  "get_approx_localtime [1577836800 * ns_per_second] [0] 21600 True True
     = Inr [(1577836800 + 10800) * ns_per_second]
   \<and> (1577836800 + 10800) * ns_per_second \<noteq> 1577836800 * ns_per_second"
  by (simp add: get_approx_localtime_def local_time_offset_center
      datetime_plus_def float_to_ticks_def ns_per_second_def)

text \<open>
  C7, amended. Where the longitude is 0 the local time equals the reference time
  whenever no centering takes place, that is unless \<open>keep_resolution\<close> and \<open>center\<close>
  are both true, for every reference time and every resolution the call accepts
  (any resolution without \<open>keep_resolution\<close>, a positive one with it). With both true
  the local time is the reference time plus \<open>R div 2\<close> seconds.
\<close>

theorem zero_longitude_local_time:
  assumes "\<not> keep \<or> 0 < R"
    and "i < length reference_datetime" and "i < length longitude" and "longitude ! i = 0"
  shows "\<exists>local_time.
           get_approx_localtime reference_datetime longitude R keep center = Inr local_time
         \<and> (\<not> keep \<or> \<not> center \<longrightarrow> local_time ! i = reference_datetime ! i)
         \<and> (keep \<and> center \<longrightarrow>
              local_time ! i = reference_datetime ! i + (R div 2) * ns_per_second)"
proof (cases keep)
  case False
  with assms show ?thesis
    by (simp add: get_approx_localtime_def local_time_offset_raw datetime_plus_def
        float_to_ticks_def)
next
  case True
  with assms(1) have R: "0 < R" by simp
  show ?thesis
  proof (cases center)
    case False
    with True assms R show ?thesis
      by (simp add: get_approx_localtime_def local_time_offset_keep datetime_plus_def
        float_to_ticks_def)
  next
    case c: True
    with True assms R show ?thesis
      by (simp add: get_approx_localtime_def local_time_offset_center datetime_plus_def
        float_to_ticks_def)
  qed
qed

theorem zero_longitude_local_time_witness:
  "get_approx_localtime [0, 21600 * ns_per_second] [180, 0] 21600 True False
     = Inr [933120000 * ns_per_second, 21600 * ns_per_second]"
  using zero_longitude_local_time [of True 21600 1 "[0, 21600 * ns_per_second]" "[180, 0]" False]
  by (simp add: get_approx_localtime_def local_time_offset_keep
      datetime_plus_def float_to_ticks_def ns_per_second_def)

subsection \<open>Inference of the sampling resolution\<close>

lemma length_np_unique: "length (np_unique xs) = card (set xs)"
  by (simp add: np_unique_def length_remdups_card_conv)

lemma set_np_unique: "set (np_unique xs) = set xs"
  by (simp add: np_unique_def)

lemma np_unique_single: "set xs = {g} \<Longrightarrow> np_unique xs = [g]"
proof -
  assume "set xs = {g}"
  then have "sorted_list_of_set (set xs) = [g]" by simp
  then show ?thesis by (simp add: np_unique_def sorted_list_of_set_sort_remdups)
qed

text \<open>
  C3, as stated: the error is raised exactly when the gaps between the sorted,
  deduplicated time stamps have more than one distinct value. The time coordinate
  0 s, 60 s, 60 s, 120 s has the single such gap 60 s, and the code raises the error:
  it takes the gaps of the coordinate as it is given, here 60 s, 0 s and 60 s.
\<close>

theorem time_resolution_counterexample:
  "get_time_resolution [0, 60 * ns_per_second, 60 * ns_per_second, 120 * ns_per_second]
     = Inl ValueError
   \<and> card (set (sorted_dedup_gaps
        [0, 60 * ns_per_second, 60 * ns_per_second, 120 * ns_per_second])) = 1"
  by (simp add: get_time_resolution_def np_unique_def sorted_dedup_gaps_def ns_per_second_def)

text \<open>
  C3, amended. \<open>_get_time_resolution\<close> fails with the \<open>ValueError\<close> of line 78 (the
  samples are not evenly spaced in time) if and only if the gaps between neighbouring
  entries of the time coordinate, in the order given, have more than one distinct value;
  when they have exactly one value it returns that gap in whole seconds, rounded down.
  Gaps of 60, 60, 60 seconds give 60 and gaps of 60, 120, 60 seconds give the error.
\<close>

theorem time_resolution_distinct_gaps:
  "(get_time_resolution time = Inl ValueError \<longleftrightarrow> 1 < card (set (diff time)))
   \<and> (set (diff time) = {g} \<longrightarrow> get_time_resolution time = Inr (g div ns_per_second))
   \<and> get_time_resolution
        [0, 60 * ns_per_second, 120 * ns_per_second, 180 * ns_per_second] = Inr 60
   \<and> get_time_resolution
        [0, 60 * ns_per_second, 180 * ns_per_second, 240 * ns_per_second] = Inl ValueError"
proof -
  have a: "get_time_resolution time = Inl ValueError \<longleftrightarrow> 1 < card (set (diff time))"
    by (simp add: get_time_resolution_def length_np_unique [symmetric] split: list.splits)
  have b: "get_time_resolution time = Inr (g div ns_per_second)" if "set (diff time) = {g}"
    by (simp add: get_time_resolution_def np_unique_single [OF that])
  have c: "get_time_resolution
        [0, 60 * ns_per_second, 120 * ns_per_second, 180 * ns_per_second] = Inr 60"
    by (simp add: get_time_resolution_def np_unique_def ns_per_second_def)
  have d: "get_time_resolution
        [0, 60 * ns_per_second, 180 * ns_per_second, 240 * ns_per_second] = Inl ValueError"
    by (simp add: get_time_resolution_def np_unique_def ns_per_second_def)
  from a b c d show ?thesis by blast
qed

theorem time_resolution_distinct_gaps_witness:
  "set (diff [0, 1500000000, 3000000000]) = {1500000000}
   \<and> get_time_resolution [0, 1500000000, 3000000000] = Inr 1"
  using time_resolution_distinct_gaps [of "[0, 1500000000, 3000000000]" 1500000000]
  by (simp add: ns_per_second_def)

subsection \<open>Time coordinates with fewer than two entries\<close>

lemma diff_short: "length time < 2 \<Longrightarrow> diff time = []"
  by (cases time rule: diff.cases) simp_all

text \<open>
  C10. For a time coordinate with fewer than two entries, \<open>_get_time_resolution\<close> does
  not return a resolution: the array of gaps is empty and its first element is read out
  of range. \<open>avg_diurnal_cycle\<close> fails in the same way on such a dataset.
\<close>

theorem short_time_coordinate_index_error:
  assumes "length time < 2"
  shows "diff time = []
       \<and> get_time_resolution time = Inl IndexError
       \<and> (ds_time dset = time \<longrightarrow>
            avg_diurnal_cycle dset keep_time_resolution center = Inl IndexError)"
  using diff_short [OF assms]
  by (simp add: get_time_resolution_def np_unique_def avg_diurnal_cycle_def)

theorem short_time_coordinate_index_error_witness:
  "get_time_resolution [1577836800000000000] = Inl IndexError
   \<and> avg_diurnal_cycle
        \<lparr>ds_time = [1577836800000000000], ds_lon = [0, 180],
         ds_vars = [[[Some 1], [Some 2]]]\<rparr> True False = Inl IndexError"
  using short_time_coordinate_index_error
    [of "[1577836800000000000]"
        "\<lparr>ds_time = [1577836800000000000], ds_lon = [0, 180],
         ds_vars = [[[Some 1], [Some 2]]]\<rparr>" True False]
  by simp

subsection \<open>The mean that skips missing values\<close>

lemma sum_list_zero_filled:
  "sum_list (map (\<lambda>x. case x of None \<Rightarrow> 0 | Some v \<Rightarrow> v) xs) = sum_list (present_values xs)"
  by (induction xs) (auto simp: present_values_def)

lemma nanmean_present:
  "nanmean xs = (if present_values xs = [] then None
                 else Some (sum_list (present_values xs) / real (length (present_values xs))))"
  by (simp add: nanmean_def sum_list_zero_filled Let_def) (simp add: present_values_def)


lemma present_values_one_missing:
  assumes "None \<notin> set pre" and "None \<notin> set post"
  shows "present_values (pre @ None # post) = map the (pre @ post)"
proof -
  have "filter (\<lambda>x. x \<noteq> None) xs = xs" if "None \<notin> set xs" for xs :: "real option list"
    by (rule filter_True) (metis that)
  with assms show ?thesis
    by (simp add: present_values_def del: not_None_eq)
qed

subsection \<open>Grouping the stacked samples\<close>

lemma group_members_Cons:
  "group_members (x # xs) (y # ys) k = (if x = k then [y] else []) @ group_members xs ys k"
  by (simp add: group_members_def)

lemma group_members_append:
  "length xs = length ys \<Longrightarrow>
     group_members (xs @ xs') (ys @ ys') k = group_members xs ys k @ group_members xs' ys' k"
  by (simp add: group_members_def)

lemma upt_shift: "[0..<length (x # xs)] = 0 # map Suc [0..<length xs]"
  unfolding map_Suc_upt by (simp add: upt_rec [of 0] del: upt_Suc)

lemma group_members_nth:
  "length ys = length xs \<Longrightarrow>
     group_members xs ys k = map ((!) ys) (filter (\<lambda>j. xs ! j = k) [0..<length xs])"
proof (induction xs arbitrary: ys)
  case Nil
  then show ?case by (simp add: group_members_def)
next
  case (Cons x xs)
  then obtain y ys' where ys: "ys = y # ys'" and len: "length ys' = length xs"
    by (cases ys) auto
  show ?case
    unfolding ys upt_shift group_members_Cons Cons.IH [OF len]
    by (simp add: filter_map o_def)
qed

lemma group_members_nonempty:
  "k \<in> set keys \<Longrightarrow> length vals = length keys \<Longrightarrow> group_members keys vals k \<noteq> []"
proof (induction keys arbitrary: vals)
  case Nil
  then show ?case by simp
next
  case (Cons x xs)
  then obtain y ys where "vals = y # ys" "length ys = length xs" by (cases vals) auto
  with Cons show ?case by (auto simp: group_members_Cons)
qed


lemma groupby_mean_nth:
  "b < length (np_unique keys) \<Longrightarrow>
     groupby_mean keys vals ! b = nanmean (group_members keys vals (np_unique keys ! b))"
  by (simp add: groupby_mean_def)

lemma zip_cross:
  "zip (concat (map (\<lambda>l. T) L)) (concat (map (\<lambda>l. replicate (length T) l) L))
     = concat (map (\<lambda>l. map (\<lambda>t. (t, l)) T) L)"
  by (induction L) (simp_all add: zip_replicate2)

lemma stacked_pairs:
  "zip (stacked_time dset) (stacked_lon dset)
     = concat (map (\<lambda>l. map (\<lambda>t. (t, l)) (ds_time dset)) (ds_lon dset))"
  unfolding stacked_time_def stacked_lon_def by (rule zip_cross)

lemma stacked_keys:
  "map time_of_day (map2 (\<lambda>t l. datetime_plus t (local_time_offset l R keep center))
       (stacked_time dset) (stacked_lon dset)) = sample_keys dset R keep center"
  unfolding stacked_pairs sample_keys_def by (simp add: map_concat o_def)

lemma length_concat_uniform:
  "\<forall>row \<in> set field. length row = n \<Longrightarrow> length (concat field) = length field * n"
  by (induction field) simp_all

lemma length_sample_keys:
  "length (sample_keys dset R keep center) = length (ds_lon dset) * length (ds_time dset)"
  unfolding sample_keys_def
  by (rule trans [OF length_concat_uniform [where n = "length (ds_time dset)"]]) auto

lemma length_stacked_var:
  assumes "well_formed dset" and "field \<in> set (ds_vars dset)"
  shows "length (stacked_var field) = length (sample_keys dset R keep center)"
proof -
  from assms have "length field = length (ds_lon dset)"
    and "\<forall>row \<in> set field. length row = length (ds_time dset)"
    by (auto simp: well_formed_def)
  then have "length (concat field) = length (ds_lon dset) * length (ds_time dset)"
    using length_concat_uniform [of field "length (ds_time dset)"] by simp
  then show ?thesis
    by (simp add: stacked_var_def length_sample_keys)
qed

text \<open>
  The members of a group of the stacked variable are the samples whose local time falls
  into the bucket: stacking the coordinates and stacking the data run through the
  (longitude, time) pairs in the same order.
\<close>

lemma group_members_stacked:
  assumes "length field = length L" and "\<forall>row \<in> set field. length row = length T"
  shows "group_members (concat (map (\<lambda>l. map (g l) T) L)) (concat field) k
       = concat (map (\<lambda>i. map (\<lambda>j. field ! i ! j)
                   (filter (\<lambda>j. g (L ! i) (T ! j) = k) [0..<length T])) [0..<length L])"
  using assms
proof (induction field L rule: list_induct2)
  case Nil
  then show ?case by (simp add: group_members_def)
next
  case (Cons row field l L)
  have row: "length row = length T" using Cons.prems by simp
  have f: "filter (\<lambda>j. map (g l) T ! j = k) [0..<length T]
             = filter (\<lambda>j. g l (T ! j) = k) [0..<length T]"
    by (rule filter_cong) auto
  have r: "group_members (map (g l) T) row k
             = map ((!) row) (filter (\<lambda>j. g l (T ! j) = k) [0..<length T])"
    using group_members_nth [of row "map (g l) T" k] row f by simp
  have ih: "group_members (concat (map (\<lambda>l. map (g l) T) L)) (concat field) k
       = concat (map (\<lambda>i. map (\<lambda>j. field ! i ! j)
                   (filter (\<lambda>j. g (L ! i) (T ! j) = k) [0..<length T])) [0..<length L])"
    using Cons by simp
  show ?case
    unfolding upt_shift using row
    by (simp add: group_members_append r ih o_def)
qed

lemma group_members_samples_in_bucket:
  assumes "well_formed dset" and "field \<in> set (ds_vars dset)"
  shows "group_members (sample_keys dset R keep center) (stacked_var field) k
           = samples_in_bucket dset R keep center field k"
proof -
  from assms have "length field = length (ds_lon dset)"
    and "\<forall>row \<in> set field. length row = length (ds_time dset)"
    by (auto simp: well_formed_def)
  from group_members_stacked [OF this,
      of "\<lambda>l t. time_of_day (datetime_plus t (local_time_offset l R keep center))" k]
  show ?thesis
    by (simp add: sample_keys_def stacked_var_def samples_in_bucket_def
        local_time_of_sample_def)
qed

subsection \<open>avg_diurnal_cycle\<close>

lemma avg_diurnal_cycle_result:
  assumes "get_time_resolution (ds_time dset) = Inr R" and "keep \<longrightarrow> 0 < R"
  shows "avg_diurnal_cycle dset keep center =
           Inr (np_unique (sample_keys dset R keep center),
                map (\<lambda>field. groupby_mean (sample_keys dset R keep center) (stacked_var field))
                  (ds_vars dset))"
proof -
  have g: "get_approx_localtime (stacked_time dset) (stacked_lon dset) R keep center
             = Inr (map2 (\<lambda>t l. datetime_plus t (local_time_offset l R keep center))
                      (stacked_time dset) (stacked_lon dset))"
    using assms(2) by (auto simp add: get_approx_localtime_def)
  show ?thesis
    by (simp only: avg_diurnal_cycle_def assms(1) g sum.case Let_def stacked_keys)
qed

lemma avg_diurnal_cycle_returns:
  assumes "get_time_resolution (ds_time dset) = Inr R"
    and "avg_diurnal_cycle dset keep center = Inr out"
  shows "keep \<longrightarrow> 0 < R"
  using assms
  by (auto simp add: avg_diurnal_cycle_def get_approx_localtime_def split: if_splits)

text \<open>
  C8. Every time-of-day bucket of the result holds, for every data variable (every slice
  of the remaining dimensions), the arithmetic mean of the samples that land in the
  bucket and are not missing. A bucket always has samples; when all of them are missing
  the result is missing, not an error, and when exactly one is missing the result is the
  mean of the others.
\<close>

theorem bucket_mean_skips_missing:
  assumes "well_formed dset"
    and "get_time_resolution (ds_time dset) = Inr R"
    and "avg_diurnal_cycle dset keep center = Inr (tods, means)"
    and "v < length (ds_vars dset)" and "b < length tods"
  shows "length means = length (ds_vars dset) \<and> length (means ! v) = length tods
       \<and> samples_in_bucket dset R keep center (ds_vars dset ! v) (tods ! b) \<noteq> []
       \<and> means ! v ! b =
           (let present = present_values
                  (samples_in_bucket dset R keep center (ds_vars dset ! v) (tods ! b))
            in if present = [] then None
               else Some (sum_list present / real (length present)))
       \<and> (\<forall>pre post.
             samples_in_bucket dset R keep center (ds_vars dset ! v) (tods ! b)
               = pre @ None # post \<and> None \<notin> set pre \<and> None \<notin> set post \<and> pre @ post \<noteq> []
             \<longrightarrow> means ! v ! b
                   = Some (sum_list (map the (pre @ post)) / real (length (pre @ post))))"
proof -
  let ?keys = "sample_keys dset R keep center"
  let ?field = "ds_vars dset ! v"
  let ?S = "samples_in_bucket dset R keep center ?field (tods ! b)"
  have pos: "keep \<longrightarrow> 0 < R"
    using avg_diurnal_cycle_returns [OF assms(2,3)] .
  have res: "tods = np_unique ?keys"
    "means = map (\<lambda>field. groupby_mean ?keys (stacked_var field)) (ds_vars dset)"
    using avg_diurnal_cycle_result [OF assms(2) pos, of center] assms(3) by simp_all
  have field: "?field \<in> set (ds_vars dset)"
    using assms(4) by simp
  have len: "length (stacked_var ?field) = length ?keys"
    using length_stacked_var [OF assms(1) field] .
  have grp: "group_members ?keys (stacked_var ?field) (tods ! b) = ?S"
    using group_members_samples_in_bucket [OF assms(1) field] .
  have key: "tods ! b \<in> set ?keys"
    using assms(5) res(1) set_np_unique [of ?keys] nth_mem by blast
  have ne: "?S \<noteq> []"
    using group_members_nonempty [OF key len] grp by simp
  have l1: "length means = length (ds_vars dset)"
    by (simp add: res(2))
  have l2: "length (means ! v) = length tods"
    using assms(4) by (simp add: res groupby_mean_def)
  have m: "means ! v ! b = nanmean ?S"
    using assms(4,5) groupby_mean_nth [of b ?keys "stacked_var ?field"] grp
    by (simp add: res)
  have m1: "means ! v ! b =
           (let present = present_values ?S
            in if present = [] then None
               else Some (sum_list present / real (length present)))"
    unfolding m by (simp add: nanmean_present Let_def)
  have m2: "means ! v ! b = Some (sum_list (map the (pre @ post)) / real (length (pre @ post)))"
    if "?S = pre @ None # post" "None \<notin> set pre" "None \<notin> set post" "pre @ post \<noteq> []"
    for pre post
    unfolding m1 that(1) present_values_one_missing [OF that(2,3)] using that(4)
    by (simp add: Let_def)
  from l1 l2 ne m1 m2 show ?thesis by blast
qed

theorem bucket_mean_skips_missing_witness:
  "avg_diurnal_cycle
     \<lparr>ds_time = [1577836800 * ns_per_second, 1577858400 * ns_per_second,
                 1577880000 * ns_per_second, 1577901600 * ns_per_second],
      ds_lon = [0, 180],
      ds_vars = [[[Some 1, None, Some 3, None], [Some 10, None, Some 30, Some 40]]]\<rparr>
     False False
     = Inr ([0, 21600000000, 43200000000, 64800000000],
            [[Some (31 / 2), Some 40, Some (13 / 2), None]])
   \<and> samples_in_bucket
     \<lparr>ds_time = [1577836800 * ns_per_second, 1577858400 * ns_per_second,
                 1577880000 * ns_per_second, 1577901600 * ns_per_second],
      ds_lon = [0, 180],
      ds_vars = [[[Some 1, None, Some 3, None], [Some 10, None, Some 30, Some 40]]]\<rparr>
     21600 False False
     [[Some 1, None, Some 3, None], [Some 10, None, Some 30, Some 40]] 21600000000
     = [None, Some 40]"
proof -
  let ?d = "\<lparr>ds_time = [1577836800 * ns_per_second, 1577858400 * ns_per_second,
                 1577880000 * ns_per_second, 1577901600 * ns_per_second],
      ds_lon = [0, 180],
      ds_vars = [[[Some 1, None, Some 3, None], [Some 10, None, Some 30, Some 40]]]\<rparr>"
  have wf: "well_formed ?d"
    by (simp add: well_formed_def)
  have res: "get_time_resolution (ds_time ?d) = Inr 21600"
    by (simp add: get_time_resolution_def np_unique_def ns_per_second_def)
  have avg: "avg_diurnal_cycle ?d False False
     = Inr ([0, 21600000000, 43200000000, 64800000000],
            [[Some (31 / 2), Some 40, Some (13 / 2), None]])"
    by (simp add: avg_diurnal_cycle_def get_time_resolution_def np_unique_def
        stacked_time_def stacked_lon_def get_approx_localtime_def local_time_offset_raw
        datetime_plus_def stacked_var_def float_to_ticks_def ns_per_second_def
        time_of_day_def groupby_mean_def group_members_def nanmean_def)
  have s: "samples_in_bucket ?d 21600 False False
     [[Some 1, None, Some 3, None], [Some 10, None, Some 30, Some 40]] 21600000000
     = [None, Some 40]"
    by (simp add: samples_in_bucket_def local_time_of_sample_def local_time_offset_raw
        datetime_plus_def float_to_ticks_def ns_per_second_def time_of_day_def)
  show ?thesis
    using bucket_mean_skips_missing [OF wf res avg, of 0 1] avg s by simp
qed



end
